theory Spec2Isabelle
  imports Complex_Main
begin

section \<open>Numbers\<close>

text \<open>
  A JavaScript number is modelled by its mathematical value: finite numbers are reals and
  arithmetic on them is exact (rounding, overflow and underflow of binary64 are not part
  of the model).  The calculator only ever combines finite numbers, so it works on
  \<^typ>\<open>real\<close>.  The parser additionally sees the results of \<open>parseFloat\<close>, which
  may be \<open>NaN\<close> or an infinity, so it works on \<open>jsnum\<close>.
\<close>

datatype jsnum = NaN | NegInf | Fin real | PosInf

fun isNaN :: "jsnum \<Rightarrow> bool" where
  "isNaN NaN = True"
| "isNaN _ = False"

text \<open>\<open>x !== 0\<close>: true for \<open>NaN\<close> and the infinities, false only for zero.\<close>

fun neqZero :: "jsnum \<Rightarrow> bool" where
  "neqZero (Fin x) = (x \<noteq> 0)"
| "neqZero _ = True"

text \<open>\<open>x > y\<close> for a finite \<open>y\<close>: every comparison with \<open>NaN\<close> is false.\<close>

fun gtNum :: "jsnum \<Rightarrow> real \<Rightarrow> bool" where
  "gtNum (Fin x) y = (x > y)"
| "gtNum PosInf y = True"
| "gtNum _ y = False"

text \<open>\<open>Math.abs\<close>.\<close>

fun mathAbs :: "jsnum \<Rightarrow> jsnum" where
  "mathAbs NaN = NaN"
| "mathAbs NegInf = PosInf"
| "mathAbs PosInf = PosInf"
| "mathAbs (Fin x) = Fin \<bar>x\<bar>"

section \<open>Optical calculations\<close>

text \<open>\<open>calculateTestplateSag(radius, diameter)\<close>: z = R - sqrt(R^2 - (D/2)^2).\<close>

definition calculateTestplateSag :: "real \<Rightarrow> real \<Rightarrow> real" where
  "calculateTestplateSag radius diameter =
     (if radius = 0 \<or> diameter = 0 then 0
      else let r2 = radius * radius;
               d2 = (diameter / 2) * (diameter / 2)
           in if r2 < d2 then 0
              else \<bar>radius\<bar> - sqrt (r2 - d2))"

text \<open>\<open>calculateFringeSag(fringes, wavelength)\<close>: the wavelength is converted from nm to mm.\<close>

definition calculateFringeSag :: "real \<Rightarrow> real \<Rightarrow> real" where
  "calculateFringeSag fringes wavelength =
     (let lambdaMm = wavelength / 1000000
      in fringes * lambdaMm / 2)"

text \<open>\<open>calculateActualSag(type, testplateSag, fringeSag)\<close>: only the exact string
  \<open>'Convex'\<close> selects the sum.\<close>

definition calculateActualSag :: "string \<Rightarrow> real \<Rightarrow> real \<Rightarrow> real" where
  "calculateActualSag type testplateSag fringeSag =
     (if type = ''Convex'' then testplateSag + fringeSag
      else testplateSag - fringeSag)"

text \<open>\<open>calculateActualRadius(type, diameter, sag)\<close>: R = (D^2/4 + z^2) / (2z), the sign
  forced by the surface type; only the exact string \<open>'Concave'\<close> selects the negative sign.\<close>

definition calculateActualRadius :: "string \<Rightarrow> real \<Rightarrow> real \<Rightarrow> real" where
  "calculateActualRadius type diameter sag =
     (if sag = 0 \<or> diameter = 0 then 0
      else let d2 = diameter * diameter / 4;
               z2 = sag * sag;
               radius = (d2 + z2) / (2 * sag)
           in if type = ''Concave'' then - \<bar>radius\<bar>
              else \<bar>radius\<bar>)"

record surface_result =
  sagTestplate :: real
  sagAdded :: real
  sagActual :: real
  rActual :: real

text \<open>\<open>calculateSurface(type, diameter, rTestplate, fringes, wavelength)\<close>.\<close>

definition calculateSurface :: "string \<Rightarrow> real \<Rightarrow> real \<Rightarrow> real \<Rightarrow> real \<Rightarrow> surface_result" where
  "calculateSurface type diameter rTestplate fringes wavelength =
     (let sagTestplate = calculateTestplateSag rTestplate diameter;
          sagAdded = calculateFringeSag fringes wavelength;
          sagActual = calculateActualSag type sagTestplate sagAdded;
          rActual = calculateActualRadius type diameter sagActual
      in \<lparr> sagTestplate = sagTestplate, sagAdded = sagAdded,
           sagActual = sagActual, rActual = rActual \<rparr>)"

section \<open>Strings\<close>

text \<open>
  Strings are lists of 8-bit characters.  Of the characters that JavaScript's \<open>trim\<close>
  and the regular expression class \<open>\s\<close> treat as white space, those below 256 are
  tab, line feed, vertical tab, form feed, carriage return, space and no-break space.
\<close>

definition isWs :: "char \<Rightarrow> bool" where
  "isWs c = (c \<in> set [CHR 0x09, CHR 0x0A, CHR 0x0B, CHR 0x0C, CHR 0x0D, CHR 0x20, CHR 0xA0])"

definition isDigit :: "char \<Rightarrow> bool" where
  "isDigit c = (48 \<le> (of_char c :: nat) \<and> (of_char c :: nat) \<le> 57)"

text \<open>\<open>s.trim()\<close>.\<close>

definition trim :: "string \<Rightarrow> string" where
  "trim s = rev (dropWhile isWs (rev (dropWhile isWs s)))"

text \<open>\<open>s.startsWith(p)\<close>.\<close>

definition startsWith :: "string \<Rightarrow> string \<Rightarrow> bool" where
  "startsWith s p = (take (length p) s = p)"

text \<open>\<open>s.split(c)\<close> for a one-character separator: the empty string gives one empty piece.\<close>

fun splitOn :: "char \<Rightarrow> string \<Rightarrow> string list" where
  "splitOn sep [] = [[]]"
| "splitOn sep (c # cs) =
     (if c = sep then [] # splitOn sep cs
      else (case splitOn sep cs of [] \<Rightarrow> [[c]] | t # ts \<Rightarrow> (c # t) # ts))"

text \<open>\<open>s.split(/\s+/)\<close>: every maximal run of white space separates two pieces, so a
  leading or trailing run leaves an empty first or last piece.\<close>

function splitWs :: "string \<Rightarrow> string list" where
  "splitWs [] = [[]]"
| "splitWs (c # cs) =
     (if isWs c then [] # splitWs (dropWhile isWs cs)
      else (case splitWs cs of [] \<Rightarrow> [[c]] | t # ts \<Rightarrow> (c # t) # ts))"
  by pat_completeness auto
termination
  by (relation "measure length") (auto simp: le_imp_less_Suc length_dropWhile_le)

section \<open>Reading and printing numbers\<close>

definition digitsValue :: "string \<Rightarrow> nat" where
  "digitsValue ds = foldl (\<lambda>a c. 10 * a + (of_char c - 48)) 0 ds"

definition scaleExp :: "real \<Rightarrow> int \<Rightarrow> real" where
  "scaleExp m e = (if 0 \<le> e then m * 10 ^ nat e else m / 10 ^ nat (- e))"

text \<open>An optional sign at the head of a string: whether it is a minus, the sign's text and
  the rest.\<close>

fun optSign :: "string \<Rightarrow> bool \<times> string \<times> string" where
  "optSign [] = (False, [], [])"
| "optSign (c # cs) =
     (if c = CHR ''-'' then (True, [c], cs)
      else if c = CHR ''+'' then (False, [c], cs)
      else (False, [], c # cs))"

text \<open>An exponent part \<open>[eE][-+]?[0-9]+\<close> at the head of a string: its text and value,
  \<open>None\<close> when there is none.\<close>

fun exponentPart :: "string \<Rightarrow> (string \<times> int) option" where
  "exponentPart [] = None"
| "exponentPart (c # cs) =
     (if c = CHR ''e'' \<or> c = CHR ''E'' then
        (case optSign cs of (neg, sg, r) \<Rightarrow>
           (let ds = takeWhile isDigit r
            in if ds = [] then None
               else Some (c # sg @ ds,
                          if neg then - int (digitsValue ds) else int (digitsValue ds))))
      else None)"

text \<open>
  \<open>parseFloat(s)\<close>: leading white space is skipped and the longest prefix that is a
  decimal literal (optional sign, then \<open>Infinity\<close> or digits with an optional fraction and
  an optional exponent) is read; whatever follows is ignored, and \<open>NaN\<close> is returned
  when there is no such prefix.
\<close>

definition parseFloat :: "string \<Rightarrow> jsnum" where
  "parseFloat s =
     (case optSign (dropWhile isWs s) of (neg, sg, r) \<Rightarrow>
        if startsWith r ''Infinity'' then (if neg then NegInf else PosInf)
        else
          let ip = takeWhile isDigit r;
              r1 = dropWhile isDigit r;
              fp = (case r1 of [] \<Rightarrow> [] | d # t \<Rightarrow> if d = CHR ''.'' then takeWhile isDigit t else []);
              r2 = (case r1 of [] \<Rightarrow> [] | d # t \<Rightarrow> if d = CHR ''.'' then dropWhile isDigit t else r1)
          in if ip = [] \<and> fp = [] then NaN
             else
               let mant = real (digitsValue ip) + real (digitsValue fp) / 10 ^ length fp;
                   e = (case exponentPart r2 of None \<Rightarrow> 0 | Some (_, v) \<Rightarrow> v);
                   x = scaleExp mant e
               in Fin (if neg then - x else x))"

text \<open>
  The regular expression \<open>[-+]?[0-9]*\.?[0-9]+([eE][-+]?[0-9]+)?\<close> tried at the head of a
  string, with the text it matches.  The digits before the point are taken greedily; a
  point is taken only when a digit follows it; otherwise the match ends with the digits
  before the point, of which there must then be at least one.
\<close>

definition numberAt :: "string \<Rightarrow> string option" where
  "numberAt s =
     (case optSign s of (neg, sg, r) \<Rightarrow>
        let ip = takeWhile isDigit r;
            r1 = dropWhile isDigit r;
            fp = (case r1 of [] \<Rightarrow> [] | d # t \<Rightarrow> if d = CHR ''.'' then takeWhile isDigit t else [])
        in if fp \<noteq> [] then
             (let r2 = dropWhile isDigit (tl r1)
              in Some (sg @ ip @ CHR ''.'' # fp @
                       (case exponentPart r2 of None \<Rightarrow> [] | Some (t, _) \<Rightarrow> t)))
           else if ip \<noteq> [] then
             Some (sg @ ip @ (case exponentPart r1 of None \<Rightarrow> [] | Some (t, _) \<Rightarrow> t))
           else None)"

text \<open>\<open>line.match(...)\<close>: the leftmost position at which the expression matches.\<close>

fun firstNumber :: "string \<Rightarrow> string option" where
  "firstNumber [] = None"
| "firstNumber (c # cs) =
     (case numberAt (c # cs) of Some m \<Rightarrow> Some m | None \<Rightarrow> firstNumber cs)"

text \<open>The decimal digits of a natural number.\<close>

fun natDigits :: "nat \<Rightarrow> string" where
  "natDigits n =
     (if n < 10 then [''0123456789'' ! n]
      else natDigits (n div 10) @ [''0123456789'' ! (n mod 10)])"

declare natDigits.simps [simp del]

text \<open>
  Exponential notation of a natural number, as \<open>Number.prototype.toString\<close> prints a
  number from \<open>10^21\<close> on: the digits without trailing zeros, a point after the first
  one when more follow, and the decimal exponent.  The digits are those of the exact
  integer part of the modelled real (JavaScript prints the shortest digits that identify
  the binary64 value).
\<close>

definition exponential :: "nat \<Rightarrow> string" where
  "exponential n =
     (let ds = natDigits n;
          sig = rev (dropWhile (\<lambda>c. c = CHR ''0'') (rev ds))
      in (case sig of [] \<Rightarrow> ''0''
          | d # r \<Rightarrow> (if r = [] then [d] else d # CHR ''.'' # r)
                      @ ''e+'' @ natDigits (length ds - 1)))"

text \<open>
  \<open>x.toFixed(f)\<close>: the integer \<open>n\<close> nearest to \<open>x * 10^f\<close> (the larger one on a
  tie) is printed with a point before its last \<open>f\<close> digits, padded with zeros on the left
  to at least \<open>f + 1\<close> digits.  Numbers from \<open>10^21\<close> on are printed in exponential
  notation instead, and the values that are not finite by name.
\<close>

definition fixedDigits :: "nat \<Rightarrow> real \<Rightarrow> string" where
  "fixedDigits f x =
     (if 10 ^ 21 \<le> x then exponential (nat \<lfloor>x\<rfloor>)
      else
        let n = nat \<lfloor>x * 10 ^ f + 1 / 2\<rfloor>;
            m = natDigits n;
            m' = replicate (f + 1 - length m) (CHR ''0'') @ m
        in if f = 0 then m
           else take (length m' - f) m' @ CHR ''.'' # drop (length m' - f) m')"

fun toFixed :: "nat \<Rightarrow> jsnum \<Rightarrow> string" where
  "toFixed f NaN = ''NaN''"
| "toFixed f PosInf = ''Infinity''"
| "toFixed f NegInf = ''-Infinity''"
| "toFixed f (Fin x) = (if x < 0 then CHR ''-'' # fixedDigits f (- x) else fixedDigits f x)"

section \<open>The prescription parser\<close>

text \<open>The accumulator of the structured format, one per \<open>SURF\<close> block.\<close>

record zmx_surface =
  number :: int
  radius :: real
  curvature :: real
  diameter :: real
  material :: "string option"

text \<open>A surface as the parser returns it (fields \<open>type\<close>, \<open>diameter\<close>,
  \<open>rTestplate\<close>, \<open>material\<close>, \<open>fringes\<close>); \<open>material\<close> is \<open>null\<close> or a string.\<close>

record surface_row =
  row_type :: string
  row_diameter :: jsnum
  row_rTestplate :: jsnum
  row_material :: "string option"
  row_fringes :: string

text \<open>The truth value of \<open>if (m)\<close> for \<open>m\<close> a string or \<open>null\<close>: \<open>null\<close> and the
  empty string are false.\<close>

fun truthy :: "string option \<Rightarrow> bool" where
  "truthy None = False"
| "truthy (Some s) = (s \<noteq> [])"

text \<open>\<open>extractNumber(line)\<close>: \<open>parseFloat\<close> of the first match of the number
  expression; \<open>null\<close> when nothing matches or the match reads as \<open>NaN\<close>.\<close>

definition extractNumber :: "string \<Rightarrow> real option" where
  "extractNumber line =
     (case firstNumber line of
        None \<Rightarrow> None
      | Some m \<Rightarrow> (case parseFloat m of Fin x \<Rightarrow> Some x | _ \<Rightarrow> None))"

text \<open>\<open>materialName.match(/^_+$/)\<close>.\<close>

definition allUnderscores :: "string \<Rightarrow> bool" where
  "allUnderscores s = (s \<noteq> [] \<and> list_all (\<lambda>c. c = CHR ''_'') s)"

text \<open>\<open>extractMaterial(line)\<close>.\<close>

definition extractMaterial :: "string \<Rightarrow> string option" where
  "extractMaterial line =
     (let parts = splitWs line
      in if length parts < 2 then None
         else
           let materialName = parts ! 1
           in if materialName \<noteq> [] \<and> materialName \<noteq> ''___BLANK''
                 \<and> \<not> allUnderscores materialName
              then Some materialName
              else if materialName = ''___BLANK'' \<and> length parts \<ge> 5 then
                (let index = parseFloat (parts ! 4)
                 in if \<not> isNaN index \<and> gtNum index 1
                    then Some (''n='' @ toFixed 4 index)
                    else None)
              else None)"

text \<open>\<open>isValidSurface(surface)\<close>.\<close>

definition isValidSurface :: "zmx_surface \<Rightarrow> bool" where
  "isValidSurface surface = (radius surface \<noteq> 0 \<and> diameter surface > 0)"

text \<open>\<open>determineSurfaceType(radius, material)\<close>.\<close>

definition determineSurfaceType :: "jsnum \<Rightarrow> string option \<Rightarrow> string" where
  "determineSurfaceType r m =
     (if truthy m then (if gtNum r 0 then ''Convex'' else ''Concave'')
      else (if gtNum r 0 then ''Concave'' else ''Convex''))"

text \<open>\<open>formatSurface(surface)\<close>; \<open>surface.material || ''\<close> is the material when it is
  a non-empty string and the empty string otherwise.\<close>

definition formatSurface :: "zmx_surface \<Rightarrow> surface_row" where
  "formatSurface surface =
     (let type = determineSurfaceType (Fin (radius surface)) (material surface)
      in \<lparr> row_type = type,
           row_diameter = mathAbs (Fin (diameter surface)),
           row_rTestplate = mathAbs (Fin (radius surface)),
           row_material = (if truthy (material surface) then material surface else Some []),
           row_fringes = [] \<rparr>)"

text \<open>
  The structured format.  The state of the second pass is the list of surfaces pushed so
  far, the current accumulator (\<open>null\<close> before the first \<open>SURF\<close> line) and the surface
  counter.  The loop is written for any function \<open>f\<close> applied to an accumulator when it
  is pushed; the parser pushes \<open>formatSurface(currentSurface)\<close>.
\<close>

type_synonym 'a zmx_state = "'a list \<times> zmx_surface option \<times> int"

text \<open>The number of lines that start a surface (first pass).\<close>

definition countSurfaces :: "string list \<Rightarrow> int" where
  "countSurfaces lines = int (length (filter (\<lambda>l. startsWith (trim l) ''SURF '') lines))"

text \<open>Pushing the current accumulator: only when there is one, it is valid, and it is
  neither \<open>SURF 0\<close> nor the last \<open>SURF\<close>.\<close>

definition pushSurface :: "(zmx_surface \<Rightarrow> 'a) \<Rightarrow> int \<Rightarrow> zmx_surface option \<Rightarrow> 'a list \<Rightarrow> 'a list" where
  "pushSurface f totalSurfaces currentSurface surfaces =
     (case currentSurface of
        None \<Rightarrow> surfaces
      | Some cs \<Rightarrow>
          if isValidSurface cs then
            (if number cs > 0 \<and> number cs < totalSurfaces - 1 then surfaces @ [f cs]
             else surfaces)
          else surfaces)"

text \<open>The three field lines, each changing the current accumulator.\<close>

definition onCurv :: "string \<Rightarrow> zmx_surface \<Rightarrow> zmx_surface" where
  "onCurv line cs =
     (if startsWith line ''CURV '' then
        (case extractNumber line of
           None \<Rightarrow> cs
         | Some c \<Rightarrow> if c \<noteq> 0 then cs\<lparr>curvature := c, radius := 1 / c\<rparr>
                     else cs\<lparr>curvature := c\<rparr>)
      else cs)"

definition onDiam :: "string \<Rightarrow> zmx_surface \<Rightarrow> zmx_surface" where
  "onDiam line cs =
     (if startsWith line ''DIAM '' then
        (case extractNumber line of
           None \<Rightarrow> cs
         | Some semiDiameter \<Rightarrow>
             if semiDiameter > 0 then cs\<lparr>diameter := semiDiameter * 2\<rparr> else cs)
      else cs)"

definition onGlas :: "string \<Rightarrow> zmx_surface \<Rightarrow> zmx_surface" where
  "onGlas line cs =
     (if startsWith line ''GLAS '' then
        (let m = extractMaterial line
         in if truthy m then cs\<lparr>material := m\<rparr> else cs)
      else cs)"

text \<open>The body of the second pass for one line.\<close>

definition zmxLine :: "(zmx_surface \<Rightarrow> 'a) \<Rightarrow> int \<Rightarrow> 'a zmx_state \<Rightarrow> string \<Rightarrow> 'a zmx_state" where
  "zmxLine f totalSurfaces st rawLine =
     (case st of (surfaces, currentSurface, surfaceNumber) \<Rightarrow>
        let line = trim rawLine;
            st1 = (if startsWith line ''SURF '' then
                     (pushSurface f totalSurfaces currentSurface surfaces,
                      Some \<lparr> number = surfaceNumber + 1, radius = 0, curvature = 0,
                             diameter = 0, material = None \<rparr>,
                      surfaceNumber + 1)
                   else st)
        in (case st1 of (surfaces1, currentSurface1, surfaceNumber1) \<Rightarrow>
              (surfaces1,
               map_option (onGlas line \<circ> onDiam line \<circ> onCurv line) currentSurface1,
               surfaceNumber1)))"

definition zmxPass :: "(zmx_surface \<Rightarrow> 'a) \<Rightarrow> string \<Rightarrow> 'a list" where
  "zmxPass f content =
     (let lines = splitOn (CHR 0x0A) content;
          totalSurfaces = countSurfaces lines
      in (case foldl (zmxLine f totalSurfaces) ([], None, - 1) lines of
            (surfaces, currentSurface, surfaceNumber) \<Rightarrow>
              pushSurface f totalSurfaces currentSurface surfaces))"

text \<open>\<open>parseZmxFormat(content)\<close>.\<close>

definition parseZmxFormat :: "string \<Rightarrow> surface_row list" where
  "parseZmxFormat content = zmxPass formatSurface content"

text \<open>\<open>parseTextFormat(content)\<close>: the body of the loop for one line, then the loop.\<close>

definition textLine :: "string \<Rightarrow> surface_row list" where
  "textLine rawLine =
     (let trimmed = trim rawLine
      in if trimmed = [] \<or> startsWith trimmed ''#'' \<or> startsWith trimmed ''//'' then []
         else
           let parts = splitWs trimmed
           in if length parts \<ge> 3 then
                (let r = parseFloat (parts ! 1);
                     d = parseFloat (parts ! 2)
                 in if \<not> isNaN r \<and> \<not> isNaN d \<and> neqZero r \<and> gtNum d 0 then
                      [\<lparr> row_type = determineSurfaceType r None,
                         row_diameter = d,
                         row_rTestplate = mathAbs r,
                         row_material = None,
                         row_fringes = [] \<rparr>]
                    else [])
              else [])"

definition parseTextFormat :: "string \<Rightarrow> surface_row list" where
  "parseTextFormat content = concat (map textLine (splitOn (CHR 0x0A) content))"

text \<open>\<open>parse(content)\<close>.\<close>

definition parse :: "string \<Rightarrow> surface_row list" where
  "parse content =
     (let zmxSurfaces = parseZmxFormat content
      in if length zmxSurfaces > 0 then zmxSurfaces
         else
           let txtSurfaces = parseTextFormat content
           in if length txtSurfaces > 0 then txtSurfaces
              else [])"

section \<open>The surface blocks of a content\<close>

text \<open>
  These definitions describe the input, not a function of the parser; they serve to say
  which surfaces the structured format returns.  A line starts a surface when, trimmed,
  it starts with \<open>SURF\<close> and a space.  The surface blocks of a list of lines are, in the
  order of the file, each line that starts a surface together with the lines that follow
  it up to the next such line; lines before the first block belong to no block.  The
  block at position \<open>k\<close> accumulates the surface obtained from a fresh accumulator
  numbered \<open>k\<close> by reading the block's lines in order.
\<close>

definition startsSurface :: "string \<Rightarrow> bool" where
  "startsSurface rawLine = startsWith (trim rawLine) ''SURF ''"

fun surfaceBlocks :: "string list \<Rightarrow> string list list" where
  "surfaceBlocks [] = []"
| "surfaceBlocks (l # ls) =
     (if startsSurface l then (l # takeWhile (\<lambda>x. \<not> startsSurface x) ls) # surfaceBlocks ls
      else surfaceBlocks ls)"

definition blockSurface :: "int \<Rightarrow> string list \<Rightarrow> zmx_surface" where
  "blockSurface k block =
     foldl (\<lambda>cs rawLine. onGlas (trim rawLine) (onDiam (trim rawLine) (onCurv (trim rawLine) cs)))
       \<lparr> number = k, radius = 0, curvature = 0, diameter = 0, material = None \<rparr>
       block"

section \<open>The calculator's properties\<close>

subsection \<open>Helper facts\<close>

lemma sqrt_le_abs: "sqrt (r * r - d / 2 * (d / 2)) \<le> \<bar>r\<bar>"
proof -
  have "sqrt (r * r - d / 2 * (d / 2)) \<le> sqrt (r * r)"
    by (rule real_sqrt_le_mono) simp
  also have "sqrt (r * r) = \<bar>r\<bar>" by simp
  finally show ?thesis .
qed

lemma sum_of_squares_nonzero: "d \<noteq> 0 \<Longrightarrow> d * d / 4 + z * z \<noteq> (0::real)"
proof -
  assume "d \<noteq> 0"
  then have "0 < d * d" using not_real_square_gt_zero [of d] by blast
  moreover have "0 \<le> z * z" by simp
  ultimately show ?thesis by linarith
qed

lemma actualRadius_zero_iff: "calculateActualRadius t d z = 0 \<longleftrightarrow> z = 0 \<or> d = 0"
  using sum_of_squares_nonzero [of d z]
  by (auto simp: calculateActualRadius_def Let_def)

lemma actualRadius_nonneg: "t \<noteq> ''Concave'' \<Longrightarrow> 0 \<le> calculateActualRadius t d z"
  by (simp add: calculateActualRadius_def Let_def)

lemma sqrt_864_bounds: "2939387 / 100000 < sqrt 864 \<and> sqrt 864 < 2939388 / 100000"
proof
  show "2939387 / 100000 < sqrt 864"
    by (rule real_less_rsqrt) (simp add: power2_eq_square)
  show "sqrt 864 < 2939388 / 100000"
    by (rule real_less_lsqrt) (simp_all add: power2_eq_square)
qed

lemma sag_33_30: "calculateTestplateSag 33 30 = 33 - sqrt 864"
  by (simp add: calculateTestplateSag_def Let_def)

subsection \<open>Testplate sag\<close>

text \<open>
  Claim C3.  For all real \<open>r\<close> and \<open>d\<close>, the testplate sag is 0 whenever \<open>r = 0\<close>, or
  \<open>d = 0\<close>, or \<open>r * r < (d/2) * (d/2)\<close>; in every other case it is
  \<open>|r| - sqrt (r^2 - (d/2)^2)\<close>.  It is never negative, and the sign of \<open>r\<close> does not
  change it.
\<close>

theorem calculateTestplateSag_spec:
  "(r = 0 \<or> d = 0 \<or> r * r < (d / 2) * (d / 2) \<longrightarrow> calculateTestplateSag r d = 0)
   \<and> (\<not> (r = 0 \<or> d = 0 \<or> r * r < (d / 2) * (d / 2)) \<longrightarrow>
        calculateTestplateSag r d = \<bar>r\<bar> - sqrt (r\<^sup>2 - (d / 2)\<^sup>2))
   \<and> 0 \<le> calculateTestplateSag r d
   \<and> calculateTestplateSag (- r) d = calculateTestplateSag r d"
  using sqrt_le_abs [of r d]
  by (auto simp: calculateTestplateSag_def Let_def power2_eq_square)

theorem calculateTestplateSag_spec_witness:
  "calculateTestplateSag 0 6 = 0 \<and> calculateTestplateSag 5 0 = 0
   \<and> calculateTestplateSag 2 6 = 0
   \<and> calculateTestplateSag 5 6 = 5 - sqrt (5\<^sup>2 - (6 / 2)\<^sup>2)
   \<and> calculateTestplateSag (- 5) 6 = calculateTestplateSag 5 6"
  using calculateTestplateSag_spec [of 0 6] calculateTestplateSag_spec [of 5 0]
    calculateTestplateSag_spec [of 2 6] calculateTestplateSag_spec [of 5 6]
  by simp

subsection \<open>Fringe sag\<close>

text \<open>
  Claim C9.  The fringe sag is linear in the fringe count: for every fringe count \<open>n\<close>
  (fractional and negative ones included) and every wavelength,
  \<open>fringeSag(n, \<lambda>) = n * (\<lambda> / 1000000) / 2\<close>, and doubling the count doubles the sag.
\<close>

theorem calculateFringeSag_linear:
  "calculateFringeSag n w = n * (w / 1000000) / 2
   \<and> calculateFringeSag (2 * n) w = 2 * calculateFringeSag n w"
  by (simp add: calculateFringeSag_def)

subsection \<open>Actual radius\<close>

text \<open>
  Claim C6.  For every diameter and sag the actual radius is at most 0 for the type
  \<open>'Concave'\<close> and at least 0 for the type \<open>'Convex'\<close>, and, whatever the type, it is
  the sentinel 0 exactly when the sag is 0 or the diameter is 0.
\<close>

theorem calculateActualRadius_sign:
  "calculateActualRadius ''Concave'' d z \<le> 0
   \<and> 0 \<le> calculateActualRadius ''Convex'' d z
   \<and> (calculateActualRadius t d z = 0 \<longleftrightarrow> z = 0 \<or> d = 0)"
  using actualRadius_zero_iff [of t d z]
  by (simp add: calculateActualRadius_def Let_def)

subsection \<open>Surface types other than the two names\<close>

text \<open>
  Claim C10.  For a surface type that is neither \<open>'Convex'\<close> nor \<open>'Concave'\<close>,
  \<open>calculateSurface\<close> mixes the two conventions: the actual sag is the testplate sag
  minus the fringe sag, as for \<open>'Concave'\<close>, while the actual radius is the one computed
  for \<open>'Convex'\<close> from that sag, hence not negative.
\<close>

theorem calculateSurface_other_type:
  assumes "t \<noteq> ''Convex''" and "t \<noteq> ''Concave''"
  shows "sagActual (calculateSurface t d r n w)
           = calculateTestplateSag r d - calculateFringeSag n w
       \<and> sagActual (calculateSurface t d r n w) = sagActual (calculateSurface ''Concave'' d r n w)
       \<and> rActual (calculateSurface t d r n w)
           = calculateActualRadius ''Convex'' d (sagActual (calculateSurface t d r n w))
       \<and> 0 \<le> rActual (calculateSurface t d r n w)"
  using assms
  by (simp add: calculateSurface_def calculateActualSag_def calculateActualRadius_def Let_def)

theorem calculateSurface_other_type_witness:
  "sagActual (calculateSurface ''convex'' 30 33 5 (6328 / 10))
     = calculateTestplateSag 33 30 - calculateFringeSag 5 (6328 / 10)
   \<and> 0 \<le> rActual (calculateSurface ''convex'' 30 33 5 (6328 / 10))
   \<and> sagActual (calculateSurface '''' 30 33 5 (6328 / 10))
     = calculateTestplateSag 33 30 - calculateFringeSag 5 (6328 / 10)
   \<and> 0 \<le> rActual (calculateSurface '''' 30 33 5 (6328 / 10))"
proof -
  have a: "''convex'' \<noteq> ''Convex''" and b: "''convex'' \<noteq> ''Concave''"
    and c: "'''' \<noteq> ''Convex''" and d: "'''' \<noteq> ''Concave''"
    by simp_all
  show ?thesis
    using calculateSurface_other_type [OF a b, of 30 33 5 "6328 / 10"]
      calculateSurface_other_type [OF c d, of 30 33 5 "6328 / 10"]
    by blast
qed

subsection \<open>The worked example\<close>

text \<open>
  Claim C2, as the specification states it: \<open>calculateSurface('Convex', 30.0, 33.0, 5, 632.8)\<close>
  has a testplate sag of approximately 3.47106 mm.  The sag computed is
  \<open>33 - sqrt 864\<close>, about 3.60612 mm, which is farther than 0.1 mm from that value.
\<close>

theorem calculateSurface_example_counterexample:
  "\<not> \<bar>sagTestplate (calculateSurface ''Convex'' 30 33 5 (6328 / 10)) - 347106 / 100000\<bar> < 1 / 10"
  using sqrt_864_bounds by (simp add: calculateSurface_def sag_33_30 Let_def)

text \<open>
  Claim C2, amended.  \<open>calculateSurface('Convex', 30.0, 33.0, 5, 632.8)\<close> returns the
  testplate sag \<open>33 - sqrt 864\<close>, which lies between 3.60612 and 3.60613 mm, the fringe
  sag \<open>5 * (632.8 / 1000000) / 2 = 0.001582\<close> mm, an actual sag that is the sum of the two,
  and a strictly positive actual radius.
\<close>

theorem calculateSurface_example:
  "sagTestplate (calculateSurface ''Convex'' 30 33 5 (6328 / 10)) = 33 - sqrt 864
   \<and> 360612 / 100000 < sagTestplate (calculateSurface ''Convex'' 30 33 5 (6328 / 10))
   \<and> sagTestplate (calculateSurface ''Convex'' 30 33 5 (6328 / 10)) < 360613 / 100000
   \<and> sagAdded (calculateSurface ''Convex'' 30 33 5 (6328 / 10)) = 5 * ((6328 / 10) / 1000000) / 2
   \<and> sagAdded (calculateSurface ''Convex'' 30 33 5 (6328 / 10)) = 1582 / 1000000
   \<and> sagActual (calculateSurface ''Convex'' 30 33 5 (6328 / 10))
       = sagTestplate (calculateSurface ''Convex'' 30 33 5 (6328 / 10))
         + sagAdded (calculateSurface ''Convex'' 30 33 5 (6328 / 10))
   \<and> 0 < rActual (calculateSurface ''Convex'' 30 33 5 (6328 / 10))"
proof -
  have sag_pos: "0 < 33 - sqrt 864 + 1582 / 1000000"
    using sqrt_864_bounds by simp
  have "0 \<le> calculateActualRadius ''Convex'' 30 (33 - sqrt 864 + 1582 / 1000000)"
    by (rule actualRadius_nonneg) simp
  moreover have "calculateActualRadius ''Convex'' 30 (33 - sqrt 864 + 1582 / 1000000) \<noteq> 0"
    using sag_pos by (simp add: actualRadius_zero_iff)
  ultimately have "0 < calculateActualRadius ''Convex'' 30 (33 - sqrt 864 + 1582 / 1000000)"
    by linarith
  then show ?thesis
    using sqrt_864_bounds
    by (simp add: calculateSurface_def sag_33_30 calculateFringeSag_def calculateActualSag_def Let_def)
qed

section \<open>The parser's properties\<close>

subsection \<open>Helper facts about splitting and numbers\<close>

lemma splitWs_token:
  "list_all (\<lambda>c. \<not> isWs c) tok \<Longrightarrow> rest = [] \<or> isWs (hd rest)
   \<Longrightarrow> splitWs (tok @ rest) = tok # tl (splitWs rest)"
proof (induction tok)
  case Nil
  then show ?case by (cases rest) auto
next
  case (Cons c tok)
  then show ?case by simp
qed

lemma splitWs_gap:
  "isWs w \<Longrightarrow> \<not> isWs c \<Longrightarrow> tl (splitWs (w # c # cs)) = splitWs (c # cs)"
  by simp

lemma natDigits_15200: "natDigits 15200 = ''15200''"
  by (simp add: natDigits.simps)

lemma toFixed_152: "toFixed 4 (Fin (152 / 100)) = ''1.5200''"
  by (simp add: fixedDigits_def Let_def natDigits_15200)

lemma parseFloat_152: "parseFloat ''1.52'' = Fin (152 / 100)"
  by code_simp

lemma index_152:
  "\<not> isNaN (parseFloat ''1.52'') \<and> gtNum (parseFloat ''1.52'') 1
   \<and> toFixed 4 (parseFloat ''1.52'') = ''1.5200''"
  unfolding parseFloat_152 toFixed_152 by simp

lemma digit_nth: "k < 10 \<Longrightarrow> isDigit (''0123456789'' ! k)"
proof -
  assume "k < 10"
  then have "k \<in> set [0, 1, 2, 3, 4, 5, 6, 7, 8, 9]" by (simp, arith)
  then show ?thesis by (auto simp: isDigit_def)
qed

lemma natDigits_digits: "list_all isDigit (natDigits n)"
proof (induction n rule: natDigits.induct)
  case (1 n)
  show ?case
  proof (cases "n < 10")
    case True
    then show ?thesis by (subst natDigits.simps) (simp add: digit_nth)
  next
    case False
    then show ?thesis using 1 by (subst natDigits.simps) (simp add: digit_nth)
  qed
qed

lemma fixedDigits_shape:
  assumes "x < 10 ^ 21" and "0 < f"
  shows "\<exists>ip fp. fixedDigits f x = ip @ CHR ''.'' # fp \<and> ip \<noteq> [] \<and> length fp = f
           \<and> list_all isDigit (ip @ fp)"
proof -
  define m where "m = natDigits (nat \<lfloor>x * 10 ^ f + 1 / 2\<rfloor>)"
  define m' where "m' = replicate (f + 1 - length m) (CHR ''0'') @ m"
  have len: "f + 1 \<le> length m'" by (simp add: m'_def)
  have zero: "isDigit (CHR ''0'')" by (simp add: isDigit_def)
  have dig: "list_all isDigit m'"
    unfolding m'_def m_def using natDigits_digits zero by (auto simp: list_all_iff)
  have eq: "fixedDigits f x = take (length m' - f) m' @ CHR ''.'' # drop (length m' - f) m'"
    using assms by (simp add: fixedDigits_def Let_def m'_def m_def)
  have "take (length m' - f) m' \<noteq> []" using len by auto
  moreover have "length (drop (length m' - f) m') = f" using len by simp
  moreover have "list_all isDigit (take (length m' - f) m' @ drop (length m' - f) m')"
    using dig by simp
  ultimately show ?thesis using eq by blast
qed

lemma tokens_blank:
  assumes "rest = [] \<or> isWs (hd rest)"
  shows "splitWs (''GLAS ___BLANK 1 0 1.52'' @ rest)
           = ''GLAS'' # ''___BLANK'' # ''1'' # ''0'' # ''1.52'' # tl (splitWs rest)"
proof -
  have t5: "splitWs (''1.52'' @ rest) = ''1.52'' # tl (splitWs rest)"
    by (rule splitWs_token [OF _ assms]) (simp add: isWs_def)
  have t4: "splitWs (''0'' @ '' 1.52'' @ rest) = ''0'' # tl (splitWs ('' 1.52'' @ rest))"
    by (rule splitWs_token) (simp_all add: isWs_def)
  have t3: "splitWs (''1'' @ '' 0 1.52'' @ rest) = ''1'' # tl (splitWs ('' 0 1.52'' @ rest))"
    by (rule splitWs_token) (simp_all add: isWs_def)
  have t2: "splitWs (''___BLANK'' @ '' 1 0 1.52'' @ rest)
              = ''___BLANK'' # tl (splitWs ('' 1 0 1.52'' @ rest))"
    by (rule splitWs_token) (simp_all add: isWs_def)
  have t1: "splitWs (''GLAS'' @ '' ___BLANK 1 0 1.52'' @ rest)
              = ''GLAS'' # tl (splitWs ('' ___BLANK 1 0 1.52'' @ rest))"
    by (rule splitWs_token) (simp_all add: isWs_def)
  have g: "\<And>c cs. \<not> isWs c \<Longrightarrow> tl (splitWs (CHR '' '' # c # cs)) = splitWs (c # cs)"
    by (rule splitWs_gap) (simp_all add: isWs_def)
  show ?thesis
    using t1 t2 t3 t4 t5 by (simp add: g isWs_def del: splitWs.simps)
qed

lemma tokens_bk7:
  assumes "rest = [] \<or> isWs (hd rest)"
  shows "splitWs (''GLAS N-BK7'' @ rest) = ''GLAS'' # ''N-BK7'' # tl (splitWs rest)"
proof -
  have t2: "splitWs (''N-BK7'' @ rest) = ''N-BK7'' # tl (splitWs rest)"
    by (rule splitWs_token [OF _ assms]) (simp add: isWs_def)
  have t1: "splitWs (''GLAS'' @ '' N-BK7'' @ rest) = ''GLAS'' # tl (splitWs ('' N-BK7'' @ rest))"
    by (rule splitWs_token) (simp_all add: isWs_def)
  have g: "\<And>c cs. \<not> isWs c \<Longrightarrow> tl (splitWs (CHR '' '' # c # cs)) = splitWs (c # cs)"
    by (rule splitWs_gap) (simp_all add: isWs_def)
  show ?thesis
    using t1 t2 by (simp add: g isWs_def del: splitWs.simps)
qed

lemma tokens_example:
  "splitWs ''GLAS ___BLANK 1 0 1.0 0 0''
     = ''GLAS'' # ''___BLANK'' # ''1'' # ''0'' # ''1.0'' # [''0'', ''0'']"
  by code_simp

lemma textLine_example:
  "textLine ''S1 -50.0 25.4''
     = [\<lparr> row_type = ''Convex'', row_diameter = Fin (254 / 10), row_rTestplate = Fin 50,
          row_material = None, row_fringes = [] \<rparr>]"
  by code_simp

subsection \<open>Surface type\<close>

text \<open>
  Claim C5.  The surface type is the 2 x 2 decision table: for every non-zero radius
  \<open>r\<close>, with a material present (a non-empty string) \<open>r > 0\<close> gives \<open>Convex\<close> and
  \<open>r < 0\<close> gives \<open>Concave\<close>; with no material (\<open>null\<close>) \<open>r > 0\<close> gives
  \<open>Concave\<close> and \<open>r < 0\<close> gives \<open>Convex\<close>.
\<close>

theorem determineSurfaceType_table:
  "(m \<noteq> [] \<and> 0 < r \<longrightarrow> determineSurfaceType (Fin r) (Some m) = ''Convex'')
   \<and> (m \<noteq> [] \<and> r < 0 \<longrightarrow> determineSurfaceType (Fin r) (Some m) = ''Concave'')
   \<and> (0 < r \<longrightarrow> determineSurfaceType (Fin r) None = ''Concave'')
   \<and> (r < 0 \<longrightarrow> determineSurfaceType (Fin r) None = ''Convex'')"
  by (simp add: determineSurfaceType_def)

theorem determineSurfaceType_table_witness:
  "determineSurfaceType (Fin 50) (Some ''N-BK7'') = ''Convex''
   \<and> determineSurfaceType (Fin (- 50)) (Some ''N-BK7'') = ''Concave''
   \<and> determineSurfaceType (Fin 50) None = ''Concave''
   \<and> determineSurfaceType (Fin (- 50)) None = ''Convex''"
  using determineSurfaceType_table [of "''N-BK7''" 50]
    determineSurfaceType_table [of "''N-BK7''" "- 50"]
  by simp

subsection \<open>Material of a GLAS line\<close>

text \<open>
  Claim C7.  A line \<open>GLAS ___BLANK 1 0 1.52 ...\<close> yields the material \<open>n=1.5200\<close> and
  a line \<open>GLAS N-BK7 ...\<close> yields \<open>N-BK7\<close>, whatever follows (nothing, or white space
  and more text).  In general, when the second token is the blank-glass sentinel and there
  is a fifth token, the result is \<open>n=\<close> followed by the fifth token's number printed
  with 4 decimals if that number is not \<open>NaN\<close> and greater than 1, and \<open>null\<close>
  otherwise.  For a number between 1 and \<open>10^21\<close> that print is a non-empty run of
  digits, a point, and exactly 4 digits.
\<close>

theorem extractMaterial_glas:
  "(rest = [] \<or> isWs (hd rest) \<longrightarrow>
      extractMaterial (''GLAS ___BLANK 1 0 1.52'' @ rest) = Some ''n=1.5200''
      \<and> extractMaterial (''GLAS N-BK7'' @ rest) = Some ''N-BK7'')
   \<and> (splitWs line = t0 # ''___BLANK'' # t2 # t3 # t4 # ts \<longrightarrow>
      extractMaterial line
        = (if \<not> isNaN (parseFloat t4) \<and> gtNum (parseFloat t4) 1
           then Some (''n='' @ toFixed 4 (parseFloat t4)) else None))
   \<and> (1 < x \<and> x < 10 ^ 21 \<longrightarrow>
      (\<exists>ip fp. toFixed 4 (Fin x) = ip @ CHR ''.'' # fp \<and> ip \<noteq> [] \<and> length fp = 4
          \<and> list_all isDigit (ip @ fp)))"
proof (intro conjI impI)
  assume r: "rest = [] \<or> isWs (hd rest)"
  show "extractMaterial (''GLAS ___BLANK 1 0 1.52'' @ rest) = Some ''n=1.5200''"
    unfolding extractMaterial_def tokens_blank [OF r]
    by (simp add: index_152 allUnderscores_def Let_def)
  show "extractMaterial (''GLAS N-BK7'' @ rest) = Some ''N-BK7''"
    unfolding extractMaterial_def tokens_bk7 [OF r]
    by (simp add: allUnderscores_def Let_def)
next
  assume "splitWs line = t0 # ''___BLANK'' # t2 # t3 # t4 # ts"
  then show "extractMaterial line
        = (if \<not> isNaN (parseFloat t4) \<and> gtNum (parseFloat t4) 1
           then Some (''n='' @ toFixed 4 (parseFloat t4)) else None)"
    by (simp add: extractMaterial_def Let_def)
next
  assume "1 < x \<and> x < 10 ^ 21"
  then show "\<exists>ip fp. toFixed 4 (Fin x) = ip @ CHR ''.'' # fp \<and> ip \<noteq> [] \<and> length fp = 4
          \<and> list_all isDigit (ip @ fp)"
    using fixedDigits_shape [of x 4] by simp
qed

theorem extractMaterial_glas_witness:
  "extractMaterial ''GLAS ___BLANK 1 0 1.52 0 0 0 0 0 0'' = Some ''n=1.5200''
   \<and> extractMaterial ''GLAS ___BLANK 1 0 1.52'' = Some ''n=1.5200''
   \<and> extractMaterial ''GLAS N-BK7 0 0 1.5168 64.17 0 0 0 0 0 0'' = Some ''N-BK7''
   \<and> extractMaterial ''GLAS ___BLANK 1 0 1.0 0 0'' = None
   \<and> (\<exists>ip fp. toFixed 4 (Fin (152 / 100)) = ip @ CHR ''.'' # fp \<and> length fp = 4)"
proof -
  have w: "isWs (hd '' 0 0 0 0 0 0'')" and w': "isWs (hd '' 0 0 1.5168 64.17 0 0 0 0 0 0'')"
    by (simp_all add: isWs_def)
  have one: "parseFloat ''1.0'' = Fin 1" by code_simp
  have a: "extractMaterial (''GLAS ___BLANK 1 0 1.52'' @ '' 0 0 0 0 0 0'') = Some ''n=1.5200''"
    using extractMaterial_glas [of "'' 0 0 0 0 0 0''"] w by blast
  have b: "extractMaterial (''GLAS ___BLANK 1 0 1.52'' @ []) = Some ''n=1.5200''"
    using extractMaterial_glas [of "[]"] by blast
  have c: "extractMaterial (''GLAS N-BK7'' @ '' 0 0 1.5168 64.17 0 0 0 0 0 0'') = Some ''N-BK7''"
    using extractMaterial_glas [of "'' 0 0 1.5168 64.17 0 0 0 0 0 0''"] w' by blast
  have d: "extractMaterial ''GLAS ___BLANK 1 0 1.0 0 0'' = None"
    using extractMaterial_glas [of _ "''GLAS ___BLANK 1 0 1.0 0 0''"
        "''GLAS''" "''1''" "''0''" "''1.0''" "[''0'', ''0'']"] tokens_example one
    by simp
  have e: "\<exists>ip fp. toFixed 4 (Fin (152 / 100)) = ip @ CHR ''.'' # fp \<and> length fp = 4"
  proof -
    have h: "(1::real) < 152 / 100 \<and> (152 / 100 :: real) < 10 ^ 21" by simp
    from extractMaterial_glas [where x = "152 / 100"] h
    obtain ip fp where "toFixed 4 (Fin (152 / 100)) = ip @ CHR ''.'' # fp" and "length fp = 4"
      by blast
    then show ?thesis by blast
  qed
  show ?thesis using a b c d e by simp
qed

subsection \<open>The delimited-text example\<close>

text \<open>
  Claim C1, as the specification states it: the line \<open>S1 -50.0 25.4\<close> gives exactly one
  record, with diameter 25.4, testplate radius 50.0 and type \<open>Concave\<close>.  The type
  returned is \<open>Convex\<close>.
\<close>

theorem parseTextFormat_example_counterexample:
  "\<not> (length (parseTextFormat ''S1 -50.0 25.4'') = 1
       \<and> row_diameter (hd (parseTextFormat ''S1 -50.0 25.4'')) = Fin (254 / 10)
       \<and> row_rTestplate (hd (parseTextFormat ''S1 -50.0 25.4'')) = Fin 50
       \<and> row_type (hd (parseTextFormat ''S1 -50.0 25.4'')) = ''Concave'')"
  unfolding parseTextFormat_def by (simp add: textLine_example)

text \<open>
  Claim C1, amended.  For the line \<open>S1 -50.0 25.4\<close> \<open>parseTextFormat\<close> returns
  exactly one record, with diameter 25.4, testplate radius 50.0, no material, and type
  \<open>Convex\<close> (no material and a negative radius).
\<close>

theorem parseTextFormat_example:
  "parseTextFormat ''S1 -50.0 25.4''
     = [\<lparr> row_type = ''Convex'', row_diameter = Fin (254 / 10), row_rTestplate = Fin 50,
          row_material = None, row_fringes = [] \<rparr>]"
  unfolding parseTextFormat_def by (simp add: textLine_example)

subsection \<open>The structured format: which surfaces are returned\<close>

text \<open>
  The second pass returns, in the order of the file, the formatted surfaces of the valid
  blocks at the positions from 1 to the number of blocks minus 2.
\<close>

lemma countSurfaces_blocks: "countSurfaces ls = int (length (surfaceBlocks ls))"
  by (induction ls) (simp_all add: countSurfaces_def startsSurface_def)

lemma pushSurface_filter:
  "pushSurface f T (Some cs) ss
     = ss @ map f (filter (\<lambda>s. isValidSurface s \<and> 0 < number s \<and> number s < T - 1) [cs])"
  by (simp add: pushSurface_def)

lemma zmxLine_marker:
  "startsSurface l \<Longrightarrow>
   zmxLine f T (ss, cur, n) l
     = (pushSurface f T cur ss, Some (blockSurface (n + 1) [l]), n + 1)"
  by (simp add: zmxLine_def startsSurface_def blockSurface_def Let_def)

lemma zmxLine_field:
  "\<not> startsSurface l \<Longrightarrow>
   zmxLine f T (ss, cur, n) l
     = (ss, map_option (onGlas (trim l) \<circ> onDiam (trim l) \<circ> onCurv (trim l)) cur, n)"
  by (simp add: zmxLine_def startsSurface_def Let_def)

lemma blockSurface_Cons:
  "foldl (\<lambda>cs rawLine. onGlas (trim rawLine) (onDiam (trim rawLine) (onCurv (trim rawLine) cs)))
     (blockSurface k [l]) ls = blockSurface k (l # ls)"
  by (simp add: blockSurface_def)

lemma run_from_surface:
  "(case foldl (zmxLine f T) (ss, Some cs, int m - 1) ls of
      (ss', cur', n') \<Rightarrow> pushSurface f T cur' ss')
   = ss @ map f (filter (\<lambda>s. isValidSurface s \<and> 0 < number s \<and> number s < T - 1)
       (foldl (\<lambda>cs rawLine. onGlas (trim rawLine) (onDiam (trim rawLine) (onCurv (trim rawLine) cs)))
          cs (takeWhile (\<lambda>x. \<not> startsSurface x) ls)
        # map (\<lambda>(i, b). blockSurface (int i) b) (enumerate m (surfaceBlocks ls))))"
proof (induction ls arbitrary: ss cs m)
  case Nil
  show ?case by (simp add: pushSurface_filter)
next
  case (Cons l ls)
  show ?case
  proof (cases "startsSurface l")
    case True
    have "int m - 1 + 1 = int (Suc m) - 1" by simp
    then have step: "zmxLine f T (ss, Some cs, int m - 1) l
        = (pushSurface f T (Some cs) ss, Some (blockSurface (int m) [l]), int (Suc m) - 1)"
      using zmxLine_marker [OF True, of f T ss "Some cs" "int m - 1"] by simp
    show ?thesis
      using True Cons.IH [of "pushSurface f T (Some cs) ss" "blockSurface (int m) [l]" "Suc m"]
      by (simp add: step pushSurface_filter blockSurface_Cons del: of_nat_Suc)
  next
    case False
    then show ?thesis
      using Cons.IH [of ss "onGlas (trim l) (onDiam (trim l) (onCurv (trim l) cs))" m]
      by (simp add: zmxLine_field)
  qed
qed

lemma run_from_start:
  "(case foldl (zmxLine f T) ([], None, - 1) ls of
      (ss', cur', n') \<Rightarrow> pushSurface f T cur' ss')
   = map f (filter (\<lambda>s. isValidSurface s \<and> 0 < number s \<and> number s < T - 1)
       (map (\<lambda>(i, b). blockSurface (int i) b) (enumerate 0 (surfaceBlocks ls))))"
proof (induction ls)
  case Nil
  show ?case by (simp add: pushSurface_def)
next
  case (Cons l ls)
  show ?case
  proof (cases "startsSurface l")
    case True
    have step: "zmxLine f T ([], None, - 1) l = ([], Some (blockSurface 0 [l]), int 0 - 1 + 1)"
      using zmxLine_marker [OF True, of f T "[]" None "- 1"] by (simp add: pushSurface_def)
    show ?thesis
      using True run_from_surface [of f T "[]" "blockSurface 0 [l]" 1 ls]
      by (simp add: step blockSurface_Cons)
  next
    case False
    then show ?thesis using Cons.IH by (simp add: zmxLine_field)
  qed
qed

lemma number_fields:
  "number (foldl (\<lambda>cs rawLine. onGlas (trim rawLine) (onDiam (trim rawLine) (onCurv (trim rawLine) cs)))
     cs b) = number cs"
proof (induction b arbitrary: cs)
  case Nil
  show ?case by simp
next
  case (Cons l b)
  have "number (onGlas (trim l) (onDiam (trim l) (onCurv (trim l) cs))) = number cs"
    by (simp add: onGlas_def onDiam_def onCurv_def Let_def split: option.splits)
  with Cons.IH show ?case by simp
qed

lemma number_blockSurface: "number (blockSurface k b) = k"
  by (simp add: blockSurface_def number_fields)

lemma enumerate_blocks:
  "map (\<lambda>(i, b). blockSurface (int i) b) (enumerate 0 bs)
     = map (\<lambda>k. blockSurface (int k) (bs ! k)) [0..<length bs]"
  by (rule nth_equalityI) (simp_all add: nth_enumerate_eq)

lemma inner_positions:
  "filter (\<lambda>k. 0 < int k \<and> int k < int L - 1) [0..<L] = [1..<L - 1]"
proof (rule sorted_distinct_set_unique)
  show "sorted (filter (\<lambda>k. 0 < int k \<and> int k < int L - 1) [0..<L])"
    by (rule sorted_wrt_filter) simp
  show "set (filter (\<lambda>k. 0 < int k \<and> int k < int L - 1) [0..<L]) = set [1..<L - 1]"
    by auto
qed simp_all

lemma inner_blocks:
  "filter (\<lambda>s. isValidSurface s \<and> 0 < number s \<and> number s < int (length bs) - 1)
     (map (\<lambda>k. blockSurface (int k) (bs ! k)) [0..<length bs])
   = filter isValidSurface (map (\<lambda>k. blockSurface (int k) (bs ! k)) [1..<length bs - 1])"
proof -
  have "filter (\<lambda>s. isValidSurface s \<and> 0 < number s \<and> number s < int (length bs) - 1)
          (map (\<lambda>k. blockSurface (int k) (bs ! k)) [0..<length bs])
        = filter isValidSurface
            (filter (\<lambda>s. 0 < number s \<and> number s < int (length bs) - 1)
               (map (\<lambda>k. blockSurface (int k) (bs ! k)) [0..<length bs]))"
    by (simp add: conj_ac)
  also have "filter (\<lambda>s. 0 < number s \<and> number s < int (length bs) - 1)
               (map (\<lambda>k. blockSurface (int k) (bs ! k)) [0..<length bs])
             = map (\<lambda>k. blockSurface (int k) (bs ! k))
                 (filter (\<lambda>k. 0 < int k \<and> int k < int (length bs) - 1) [0..<length bs])"
    by (simp add: filter_map o_def number_blockSurface)
  finally show ?thesis by (simp only: inner_positions)
qed

lemma block_heads: "map hd (surfaceBlocks ls) = filter startsSurface ls"
  by (induction ls) simp_all

lemma zmxPass_blocks:
  "zmxPass f content
     = map f (filter isValidSurface
         (map (\<lambda>k. blockSurface (int k) (surfaceBlocks (splitOn (CHR 0x0A) content) ! k))
            [1..<length (surfaceBlocks (splitOn (CHR 0x0A) content)) - 1]))"
  unfolding zmxPass_def Let_def run_from_start countSurfaces_blocks enumerate_blocks inner_blocks
  by (rule refl)

lemma surf_file_count: "countSurfaces (splitOn (CHR 0x0A) ''SURF 0'') = 1"
  by code_simp

lemma surf_file_out: "parseZmxFormat ''SURF 0'' = []"
  by code_simp

lemma three_surfaces_blocks:
  "map formatSurface (filter isValidSurface
     (map (\<lambda>k. blockSurface (int k) (surfaceBlocks (splitOn (CHR 0x0A)
        ''SURF 0\<newline>CURV 0.1\<newline>DIAM 5\<newline>SURF 1\<newline>CURV -0.02\<newline>DIAM 12.5\<newline>GLAS N-BK7 0 0\<newline>SURF 2\<newline>CURV 0.5\<newline>DIAM 5'') ! k))
        [1..<length (surfaceBlocks (splitOn (CHR 0x0A)
        ''SURF 0\<newline>CURV 0.1\<newline>DIAM 5\<newline>SURF 1\<newline>CURV -0.02\<newline>DIAM 12.5\<newline>GLAS N-BK7 0 0\<newline>SURF 2\<newline>CURV 0.5\<newline>DIAM 5'')) - 1]))
   = [\<lparr> row_type = ''Concave'', row_diameter = Fin 25, row_rTestplate = Fin 50,
        row_material = Some ''N-BK7'', row_fringes = [] \<rparr>]"
  by code_simp

lemma three_surfaces_valid:
  "surfaceBlocks (splitOn (CHR 0x0A)
        ''SURF 0\<newline>CURV 0.1\<newline>DIAM 5\<newline>SURF 1\<newline>CURV -0.02\<newline>DIAM 12.5\<newline>GLAS N-BK7 0 0\<newline>SURF 2\<newline>CURV 0.5\<newline>DIAM 5'')
     = [[''SURF 0'', ''CURV 0.1'', ''DIAM 5''],
        [''SURF 1'', ''CURV -0.02'', ''DIAM 12.5'', ''GLAS N-BK7 0 0''],
        [''SURF 2'', ''CURV 0.5'', ''DIAM 5'']]
   \<and> blockSurface 0 [''SURF 0'', ''CURV 0.1'', ''DIAM 5'']
     = \<lparr> number = 0, radius = 10, curvature = 1 / 10, diameter = 10, material = None \<rparr>
   \<and> blockSurface 2 [''SURF 2'', ''CURV 0.5'', ''DIAM 5'']
     = \<lparr> number = 2, radius = 2, curvature = 1 / 2, diameter = 10, material = None \<rparr>
   \<and> isValidSurface (blockSurface 0 [''SURF 0'', ''CURV 0.1'', ''DIAM 5''])
   \<and> isValidSurface (blockSurface 2 [''SURF 2'', ''CURV 0.5'', ''DIAM 5''])"
  by code_simp

text \<open>
  Claim C4, as the specification states it: a content with \<open>N\<close> lines that start a
  surface gives at most \<open>N - 2\<close> records.  A content with a single \<open>SURF\<close> line has
  \<open>N = 1\<close> and gives no record, which is more than \<open>N - 2 = -1\<close>.
\<close>

theorem parseZmxFormat_bound_counterexample:
  "\<not> int (length (parseZmxFormat ''SURF 0''))
       \<le> countSurfaces (splitOn (CHR 0x0A) ''SURF 0'') - 2"
  unfolding surf_file_count surf_file_out by simp

text \<open>
  Claim C4, amended.  For every content, the number \<open>N\<close> of lines that start a surface
  is the number of its surface blocks, whose first lines are these lines in order.
  \<open>parseZmxFormat\<close> returns exactly the formatted surfaces of the blocks at the
  positions 1 to \<open>N - 2\<close> that are valid (non-zero radius, positive diameter), in order:
  the blocks at position 0 and at position \<open>N - 1\<close> are never returned, whatever radius
  and diameter they have accumulated.  Hence it returns at most \<open>N - 2\<close> records when
  \<open>N\<close> is at least 2 and none when \<open>N\<close> is less than 2.
\<close>

theorem parseZmxFormat_endpoints:
  "countSurfaces (splitOn (CHR 0x0A) content)
     = int (length (surfaceBlocks (splitOn (CHR 0x0A) content)))
   \<and> map hd (surfaceBlocks (splitOn (CHR 0x0A) content))
     = filter startsSurface (splitOn (CHR 0x0A) content)
   \<and> parseZmxFormat content
     = map formatSurface (filter isValidSurface
         (map (\<lambda>k. blockSurface (int k) (surfaceBlocks (splitOn (CHR 0x0A) content) ! k))
            [1..<length (surfaceBlocks (splitOn (CHR 0x0A) content)) - 1]))
   \<and> int (length (parseZmxFormat content))
     \<le> max 0 (countSurfaces (splitOn (CHR 0x0A) content) - 2)"
proof -
  let ?bs = "surfaceBlocks (splitOn (CHR 0x0A) content)"
  have out: "parseZmxFormat content
     = map formatSurface (filter isValidSurface
         (map (\<lambda>k. blockSurface (int k) (?bs ! k)) [1..<length ?bs - 1]))"
    unfolding parseZmxFormat_def by (rule zmxPass_blocks)
  have "length (filter isValidSurface (map (\<lambda>k. blockSurface (int k) (?bs ! k)) [1..<length ?bs - 1]))
          \<le> length (map (\<lambda>k. blockSurface (int k) (?bs ! k)) [1..<length ?bs - 1])"
    by (rule length_filter_le)
  then have "length (parseZmxFormat content) \<le> length ?bs - 1 - 1"
    unfolding out by simp
  then have "int (length (parseZmxFormat content)) \<le> max 0 (int (length ?bs) - 2)"
    by linarith
  then show ?thesis
    using out by (simp add: countSurfaces_blocks block_heads)
qed

theorem parseZmxFormat_endpoints_witness:
  "parseZmxFormat
     ''SURF 0\<newline>CURV 0.1\<newline>DIAM 5\<newline>SURF 1\<newline>CURV -0.02\<newline>DIAM 12.5\<newline>GLAS N-BK7 0 0\<newline>SURF 2\<newline>CURV 0.5\<newline>DIAM 5''
     = [\<lparr> row_type = ''Concave'', row_diameter = Fin 25, row_rTestplate = Fin 50,
          row_material = Some ''N-BK7'', row_fringes = [] \<rparr>]
   \<and> countSurfaces (splitOn (CHR 0x0A)
     ''SURF 0\<newline>CURV 0.1\<newline>DIAM 5\<newline>SURF 1\<newline>CURV -0.02\<newline>DIAM 12.5\<newline>GLAS N-BK7 0 0\<newline>SURF 2\<newline>CURV 0.5\<newline>DIAM 5'') = 3
   \<and> isValidSurface (blockSurface 0 [''SURF 0'', ''CURV 0.1'', ''DIAM 5''])
   \<and> isValidSurface (blockSurface 2 [''SURF 2'', ''CURV 0.5'', ''DIAM 5''])"
proof -
  let ?c = "''SURF 0\<newline>CURV 0.1\<newline>DIAM 5\<newline>SURF 1\<newline>CURV -0.02\<newline>DIAM 12.5\<newline>GLAS N-BK7 0 0\<newline>SURF 2\<newline>CURV 0.5\<newline>DIAM 5''"
  have n: "countSurfaces (splitOn (CHR 0x0A) ?c) = int (length (surfaceBlocks (splitOn (CHR 0x0A) ?c)))"
    and out: "parseZmxFormat ?c
     = map formatSurface (filter isValidSurface
         (map (\<lambda>k. blockSurface (int k) (surfaceBlocks (splitOn (CHR 0x0A) ?c) ! k))
            [1..<length (surfaceBlocks (splitOn (CHR 0x0A) ?c)) - 1]))"
    using parseZmxFormat_endpoints [of ?c] by blast+
  have row: "parseZmxFormat ?c
     = [\<lparr> row_type = ''Concave'', row_diameter = Fin 25, row_rTestplate = Fin 50,
          row_material = Some ''N-BK7'', row_fringes = [] \<rparr>]"
    unfolding out by (rule three_surfaces_blocks)
  have "length (surfaceBlocks (splitOn (CHR 0x0A) ?c)) = 3"
    using three_surfaces_valid by simp
  then have "countSurfaces (splitOn (CHR 0x0A) ?c) = 3"
    unfolding n by simp
  with row three_surfaces_valid show ?thesis by blast
qed

subsection \<open>Dispatch\<close>

lemma foldl_no_markers:
  "\<forall>l\<in>set ls. \<not> startsWith (trim l) ''SURF ''
   \<Longrightarrow> foldl (zmxLine f T) ([], None, n) ls = ([], None, n)"
  by (induction ls) (simp_all add: zmxLine_def Let_def)

lemma zmxPass_no_markers:
  assumes "countSurfaces (splitOn (CHR 0x0A) content) = 0"
  shows "zmxPass f content = []"
proof -
  have "\<forall>l\<in>set (splitOn (CHR 0x0A) content). \<not> startsWith (trim l) ''SURF ''"
    using assms by (simp add: countSurfaces_def filter_empty_conv)
  then show ?thesis
    by (simp add: zmxPass_def Let_def foldl_no_markers pushSurface_def)
qed

lemma textLine_valid:
  assumes "\<not> startsWith (trim l) ''#''" and "\<not> startsWith (trim l) ''//''"
    and "3 \<le> length (splitWs (trim l))"
    and "\<not> isNaN (parseFloat (splitWs (trim l) ! 1))"
    and "neqZero (parseFloat (splitWs (trim l) ! 1))"
    and "gtNum (parseFloat (splitWs (trim l) ! 2)) 0"
  shows "textLine l \<noteq> []"
proof -
  have "trim l \<noteq> []" using assms(3) by auto
  moreover have "\<not> isNaN (parseFloat (splitWs (trim l) ! 2))"
    using assms(6) by (cases "parseFloat (splitWs (trim l) ! 2)") auto
  ultimately show ?thesis
    using assms by (simp add: textLine_def Let_def)
qed

lemma parseTextFormat_nonempty:
  "l \<in> set (splitOn (CHR 0x0A) content) \<Longrightarrow> textLine l \<noteq> [] \<Longrightarrow> parseTextFormat content \<noteq> []"
  by (auto simp: parseTextFormat_def)

lemma parse_cases:
  "parse content =
     (if parseZmxFormat content \<noteq> [] then parseZmxFormat content
      else if parseTextFormat content \<noteq> [] then parseTextFormat content
      else [])"
  by (simp add: parse_def Let_def)

text \<open>
  Claim C8, as the specification states it: a content with no line that starts a surface
  and with a line of at least 3 tokens whose second and third tokens read as a non-zero
  radius and a strictly positive diameter is parsed to a non-empty result.  The content
  \<open># 5 5\<close> is such a content, but its only line is a comment line, which the
  delimited-text extraction skips: the result is empty.
\<close>

theorem parse_dispatch_counterexample:
  "\<not> (countSurfaces (splitOn (CHR 0x0A) ''# 5 5'') = 0
       \<and> splitOn (CHR 0x0A) ''# 5 5'' = [''# 5 5'']
       \<and> 3 \<le> length (splitWs ''# 5 5'')
       \<and> \<not> isNaN (parseFloat (splitWs ''# 5 5'' ! 1))
       \<and> neqZero (parseFloat (splitWs ''# 5 5'' ! 1))
       \<and> gtNum (parseFloat (splitWs ''# 5 5'' ! 2)) 0
     \<longrightarrow> parse ''# 5 5'' \<noteq> [])"
  by code_simp

text \<open>
  Claim C8, amended.  \<open>parse\<close> is a total function of the content (nothing in it
  raises): it returns the structured result when that is non-empty, otherwise the
  delimited-text result when that is non-empty, otherwise the empty list.  For every
  content with no line that starts a surface and with a line that, once trimmed, does not
  start with \<open>#\<close> or \<open>//\<close>, has at least 3 tokens, and whose second and third tokens
  read as a non-zero radius and a strictly positive diameter, \<open>parse\<close> returns the
  delimited-text result, and this result is non-empty.
\<close>

theorem parse_dispatch:
  "parse content =
     (if parseZmxFormat content \<noteq> [] then parseZmxFormat content
      else if parseTextFormat content \<noteq> [] then parseTextFormat content
      else [])
   \<and> (countSurfaces (splitOn (CHR 0x0A) content) = 0
        \<and> (\<exists>line\<in>set (splitOn (CHR 0x0A) content).
              \<not> startsWith (trim line) ''#'' \<and> \<not> startsWith (trim line) ''//''
              \<and> 3 \<le> length (splitWs (trim line))
              \<and> \<not> isNaN (parseFloat (splitWs (trim line) ! 1))
              \<and> neqZero (parseFloat (splitWs (trim line) ! 1))
              \<and> gtNum (parseFloat (splitWs (trim line) ! 2)) 0)
      \<longrightarrow> parse content = parseTextFormat content \<and> parse content \<noteq> [])"
proof (intro conjI impI)
  show "parse content =
     (if parseZmxFormat content \<noteq> [] then parseZmxFormat content
      else if parseTextFormat content \<noteq> [] then parseTextFormat content
      else [])"
    by (rule parse_cases)
next
  assume h: "countSurfaces (splitOn (CHR 0x0A) content) = 0
        \<and> (\<exists>line\<in>set (splitOn (CHR 0x0A) content).
              \<not> startsWith (trim line) ''#'' \<and> \<not> startsWith (trim line) ''//''
              \<and> 3 \<le> length (splitWs (trim line))
              \<and> \<not> isNaN (parseFloat (splitWs (trim line) ! 1))
              \<and> neqZero (parseFloat (splitWs (trim line) ! 1))
              \<and> gtNum (parseFloat (splitWs (trim line) ! 2)) 0)"
  then have zmx: "parseZmxFormat content = []"
    by (simp add: parseZmxFormat_def zmxPass_no_markers)
  from h obtain line where "line \<in> set (splitOn (CHR 0x0A) content)" and "textLine line \<noteq> []"
    using textLine_valid by blast
  then have tx: "parseTextFormat content \<noteq> []"
    by (rule parseTextFormat_nonempty)
  show "parse content = parseTextFormat content" and "parse content \<noteq> []"
    using zmx tx by (simp_all add: parse_cases)
qed

theorem parse_dispatch_witness:
  "parse ''S1 -50.0 25.4'' = parseTextFormat ''S1 -50.0 25.4''
   \<and> parse ''S1 -50.0 25.4'' \<noteq> []"
proof -
  have a: "countSurfaces (splitOn (CHR 0x0A) ''S1 -50.0 25.4'') = 0"
    by code_simp
  have b: "\<exists>line\<in>set (splitOn (CHR 0x0A) ''S1 -50.0 25.4'').
              \<not> startsWith (trim line) ''#'' \<and> \<not> startsWith (trim line) ''//''
              \<and> 3 \<le> length (splitWs (trim line))
              \<and> \<not> isNaN (parseFloat (splitWs (trim line) ! 1))
              \<and> neqZero (parseFloat (splitWs (trim line) ! 1))
              \<and> gtNum (parseFloat (splitWs (trim line) ! 2)) 0"
    by code_simp
  show ?thesis
    using parse_dispatch [of "''S1 -50.0 25.4''"] a b by blast
qed

end
